theory Spec2Isabelle
  imports Main "HOL-Library.Word"
begin

section \<open>JavaScript strings\<close>

text \<open>
  A JavaScript string is a sequence of UTF-16 code units, and the regular expressions of
  \<^verbatim>\<open>app.js\<close> (none has the \<^verbatim>\<open>u\<close> flag) work on code units. A string is therefore a list of
  16-bit words; \<open>js\<close> turns an ASCII literal of the source into such a list.
\<close>

type_synonym jstring = "16 word list"

definition js :: "string \<Rightarrow> jstring" where
  "js s = map of_char s"

text \<open>Truthiness of a string, and \<^verbatim>\<open>a || b\<close> on strings and on \<^verbatim>\<open>x?.textContent\<close>.\<close>

definition truthy :: "jstring \<Rightarrow> bool" where
  "truthy s \<longleftrightarrow> s \<noteq> []"

definition or_else :: "jstring option \<Rightarrow> jstring \<Rightarrow> jstring" where
  "or_else a b = (case a of None \<Rightarrow> b | Some s \<Rightarrow> if truthy s then s else b)"

text \<open>
  The characters matched by \<^verbatim>\<open>\s\<close> and removed by \<^verbatim>\<open>trim()\<close>: WhiteSpace and
  LineTerminator of ECMAScript.
\<close>

definition is_space :: "16 word \<Rightarrow> bool" where
  "is_space c \<longleftrightarrow>
     c \<in> {0x09, 0x0A, 0x0B, 0x0C, 0x0D, 0x20, 0xA0, 0x1680, 0x2028, 0x2029, 0x202F, 0x205F,
          0x3000, 0xFEFF} \<or> (0x2000 \<le> c \<and> c \<le> 0x200A)"

text \<open>\<^verbatim>\<open>.replace(/<[^>]*>/g, '')\<close>: a \<^verbatim>\<open><\<close> with a later \<^verbatim>\<open>>\<close> is removed up to the first such \<^verbatim>\<open>>\<close>.\<close>

function strip_tags :: "jstring \<Rightarrow> jstring" where
  "strip_tags [] = []"
| "strip_tags (c # cs) =
     (if c = 0x3C \<and> 0x3E \<in> set cs
      then strip_tags (tl (dropWhile (\<lambda>x. x \<noteq> 0x3E) cs))
      else c # strip_tags cs)"
  by pat_completeness auto
termination
proof (relation "measure length")
  fix c :: "16 word" and cs :: jstring
  have "length (tl (dropWhile (\<lambda>x. x \<noteq> 0x3E) cs)) \<le> length cs"
    using length_dropWhile_le [of "\<lambda>x. x \<noteq> 0x3E" cs] by simp
  then show "(tl (dropWhile (\<lambda>x. x \<noteq> 0x3E) cs), c # cs) \<in> measure length"
    by simp
qed simp_all

text \<open>\<^verbatim>\<open>.replace(/pat/g, rep)\<close> for a literal, non-empty pattern: all matches, left to right.\<close>

function replace_all :: "jstring \<Rightarrow> jstring \<Rightarrow> jstring \<Rightarrow> jstring" where
  "replace_all pat rep [] = []"
| "replace_all pat rep (c # cs) =
     (if pat \<noteq> [] \<and> take (length pat) (c # cs) = pat
      then rep @ replace_all pat rep (drop (length pat) (c # cs))
      else c # replace_all pat rep cs)"
  by pat_completeness auto
termination
  by (relation "measure (\<lambda>(pat, rep, s). length s)") auto

text \<open>\<^verbatim>\<open>.replace(/\s+/g, ' ')\<close>: every maximal run of white space becomes one space.\<close>

function collapse_ws :: "jstring \<Rightarrow> jstring" where
  "collapse_ws [] = []"
| "collapse_ws (c # cs) =
     (if is_space c then 0x20 # collapse_ws (dropWhile is_space cs)
      else c # collapse_ws cs)"
  by pat_completeness auto
termination
proof (relation "measure length")
  fix c :: "16 word" and cs :: jstring
  show "(dropWhile is_space cs, c # cs) \<in> measure length"
    using length_dropWhile_le [of is_space cs] by simp
qed simp_all

definition trim :: "jstring \<Rightarrow> jstring" where
  "trim s = rev (dropWhile is_space (rev (dropWhile is_space s)))"

text \<open>\<^verbatim>\<open>cleanText\<close> (app.js, line 147).\<close>

definition cleanText :: "jstring \<Rightarrow> jstring" where
  "cleanText text =
     trim (collapse_ws
       (replace_all (js ''&amp;'') (js ''&'')
         (replace_all (js ''&gt;'') (js ''>'')
           (replace_all (js ''&lt;'') (js ''<'')
             (strip_tags text)))))"

text \<open>
  \<^verbatim>\<open>s.match(/abs\/([^\?]+)/)\<close>: the leftmost \<^verbatim>\<open>abs/\<close> followed by at least one character
  other than \<^verbatim>\<open>?\<close>; the group is the longest run of such characters. \<open>None\<close> is
  the \<^verbatim>\<open>null\<close> of a failed match.
\<close>

fun match_abs :: "jstring \<Rightarrow> jstring option" where
  "match_abs [] = None"
| "match_abs (c # cs) =
     (let grp = takeWhile (\<lambda>x. x \<noteq> 0x3F) (drop 4 (c # cs))
      in if take 4 (c # cs) = js ''abs/'' \<and> grp \<noteq> [] then Some grp else match_abs cs)"

text \<open>\<^verbatim>\<open>extractArxivId\<close> (app.js, line 142).\<close>

definition extractArxivId :: "jstring \<Rightarrow> jstring" where
  "extractArxivId link = (case match_abs link of Some grp \<Rightarrow> grp | None \<Rightarrow> [])"

text \<open>
  \<^verbatim>\<open>title.replace(/^\([^)]+\)\s*/, '')\<close>: an opening parenthesis at the start, at least one
  character other than \<^verbatim>\<open>)\<close>, the closing parenthesis, and the white space after it.
\<close>

definition strip_category_prefix :: "jstring \<Rightarrow> jstring" where
  "strip_category_prefix s =
     (case s of
        [] \<Rightarrow> []
      | c # cs \<Rightarrow>
          if c = 0x28 \<and> takeWhile (\<lambda>x. x \<noteq> 0x29) cs \<noteq> [] \<and> dropWhile (\<lambda>x. x \<noteq> 0x29) cs \<noteq> []
          then dropWhile is_space (tl (dropWhile (\<lambda>x. x \<noteq> 0x29) cs))
          else s)"

text \<open>\<^verbatim>\<open>s.replace(pat, rep)\<close> with a string pattern: the first occurrence only.\<close>

fun replace_first :: "jstring \<Rightarrow> jstring \<Rightarrow> jstring \<Rightarrow> jstring" where
  "replace_first pat rep [] = (if pat = [] then rep else [])"
| "replace_first pat rep (c # cs) =
     (if take (length pat) (c # cs) = pat then rep @ drop (length pat) (c # cs)
      else c # replace_first pat rep cs)"

text \<open>\<^verbatim>\<open>s.split('/').pop()\<close>: what follows the last slash (all of \<open>s\<close> when it has none).\<close>

definition split_pop :: "jstring \<Rightarrow> jstring" where
  "split_pop s = rev (takeWhile (\<lambda>x. x \<noteq> 0x2F) (rev s))"

text \<open>Decimal rendering of a number in a template literal, and \<^verbatim>\<open>padStart(2, '0')\<close>.\<close>

fun digits :: "nat \<Rightarrow> jstring" where
  "digits n = (if n < 10 then [0x30 + of_nat n] else digits (n div 10) @ [0x30 + of_nat (n mod 10)])"

definition String_of :: "int \<Rightarrow> jstring" where
  "String_of i = (if i < 0 then 0x2D # digits (nat (- i)) else digits (nat i))"

definition pad :: "nat \<Rightarrow> jstring" where
  "pad n = (let s = String_of (int n) in replicate (2 - length s) 0x30 @ s)"

subsection \<open>Exceptions and \<^verbatim>\<open>encodeURIComponent\<close>\<close>

datatype exn = URIError | TypeError | SyntaxError | DOMException

definition uriUnreserved :: "16 word \<Rightarrow> bool" where
  "uriUnreserved c \<longleftrightarrow>
     (0x41 \<le> c \<and> c \<le> 0x5A) \<or> (0x61 \<le> c \<and> c \<le> 0x7A) \<or> (0x30 \<le> c \<and> c \<le> 0x39) \<or>
     c \<in> {0x2D, 0x5F, 0x2E, 0x21, 0x7E, 0x2A, 0x27, 0x28, 0x29}"

definition hexdigit :: "nat \<Rightarrow> 16 word" where
  "hexdigit n = (if n < 10 then 0x30 + of_nat n else 0x41 + of_nat (n - 10))"

definition percent :: "nat \<Rightarrow> jstring" where
  "percent b = [0x25, hexdigit (b div 16), hexdigit (b mod 16)]"

definition utf8 :: "nat \<Rightarrow> nat list" where
  "utf8 cp =
     (if cp < 0x80 then [cp]
      else if cp < 0x800 then [0xC0 + cp div 64, 0x80 + cp mod 64]
      else if cp < 0x10000 then [0xE0 + cp div 4096, 0x80 + (cp div 64) mod 64, 0x80 + cp mod 64]
      else [0xF0 + cp div 262144, 0x80 + (cp div 4096) mod 64, 0x80 + (cp div 64) mod 64,
            0x80 + cp mod 64])"

definition percent_utf8 :: "nat \<Rightarrow> jstring" where
  "percent_utf8 cp = concat (map percent (utf8 cp))"

text \<open>
  \<^verbatim>\<open>encodeURIComponent\<close> as ECMAScript defines it: unreserved characters are kept, every
  other code point is written as the percent-escaped bytes of its UTF-8 form, and a
  surrogate without its partner throws \<^verbatim>\<open>URIError\<close>.
\<close>

fun encodeURIComponent :: "jstring \<Rightarrow> exn + jstring" where
  "encodeURIComponent [] = Inr []"
| "encodeURIComponent [c] =
     (if uriUnreserved c then Inr [c]
      else if 0xD800 \<le> c \<and> c \<le> 0xDFFF then Inl URIError
      else Inr (percent_utf8 (unat c)))"
| "encodeURIComponent (c # d # ds) =
     (if uriUnreserved c then
        (case encodeURIComponent (d # ds) of Inl e \<Rightarrow> Inl e | Inr r \<Rightarrow> Inr (c # r))
      else if 0xDC00 \<le> c \<and> c \<le> 0xDFFF then Inl URIError
      else if 0xD800 \<le> c \<and> c \<le> 0xDBFF then
        (if 0xDC00 \<le> d \<and> d \<le> 0xDFFF then
           (case encodeURIComponent ds of
              Inl e \<Rightarrow> Inl e
            | Inr r \<Rightarrow>
                Inr (percent_utf8 ((unat c - 0xD800) * 0x400 + (unat d - 0xDC00) + 0x10000) @ r))
         else Inl URIError)
      else
        (case encodeURIComponent (d # ds) of
           Inl e \<Rightarrow> Inl e
         | Inr r \<Rightarrow> Inr (percent_utf8 (unat c) @ r)))"

section \<open>Data model\<close>

text \<open>
  The paper object that both parsers push, and the bookmark object of \<^verbatim>\<open>toggleBookmark\<close>.
  The field \<^verbatim>\<open>id\<close> is called \<open>id'\<close> because \<open>id\<close> is the identity function of HOL, and the
  fields of a bookmark carry a prefix, since a record's fields share one name space.
\<close>

record paper =
  id' :: jstring
  title :: jstring
  link :: jstring
  abstract :: jstring
  authors :: jstring
  category :: jstring
  fetchedAt :: jstring

record bookmark =
  b_id :: jstring
  b_title :: jstring
  b_link :: jstring
  b_category :: jstring
  addedAt :: jstring

record feed =
  feed_id :: jstring
  feed_name :: jstring
  feed_url :: jstring

text \<open>
  \<^verbatim>\<open>DOMParser\<close> and the selector engine belong to the browser. What the parsers read off
  an \<^verbatim>\<open>item\<close> element of a syndication document and off an \<^verbatim>\<open>entry\<close> element of a query
  response is kept per element: \<open>None\<close> where \<^verbatim>\<open>querySelector\<close> returns \<^verbatim>\<open>null\<close>, else the
  \<^verbatim>\<open>textContent\<close>; for the two \<^verbatim>\<open>link\<close> selectors the outer option says whether the
  element exists and the inner one whether it has an \<^verbatim>\<open>href\<close> attribute.
\<close>

record rss_item =
  item_title :: "jstring option"
  item_link :: "jstring option"
  item_description :: "jstring option"
  item_creator :: "jstring option"
  item_creator_dc :: "jstring option"

record atom_entry =
  entry_title :: "jstring option"
  entry_id :: "jstring option"
  entry_summary :: "jstring option"
  entry_author_names :: "jstring list"
  entry_link_pdf :: "jstring option option"
  entry_link_alternate :: "jstring option option"

record jsdate =
  getFullYear :: int
  getMonth :: nat
  getDate :: nat

text \<open>
  The application state (app.js, line 73), without the fields that only the filter
  pipeline reads, and with the persistent slot \<^verbatim>\<open>localStorage[CONFIG.storageKey]\<close>.
  \<^verbatim>\<open>activeCategories\<close> is a \<^verbatim>\<open>Set\<close>, iterated in insertion order: a list.
\<close>

record state =
  papers :: "paper list"
  bookmarks :: "bookmark list"
  activeCategories :: "jstring list"
  dateRange :: jstring
  isLoading :: bool
  error :: "jstring option"
  localStorage :: "jstring option"

datatype fetch_outcome =
    Rejected exn
  | Response bool "exn + jstring"

text \<open>
  The environment of one run: the network (\<^verbatim>\<open>fetch(url)\<close> rejects, or resolves to a
  response with its \<^verbatim>\<open>ok\<close> flag and the outcome of \<^verbatim>\<open>response.text()\<close>), the browser's XML
  parser, the clock, and the built-ins around \<^verbatim>\<open>localStorage\<close>. A clock read is taken to
  give the same value throughout a run. \<open>handlers\<close> is what the event handlers that run
  while \<^verbatim>\<open>fetchAllFeeds\<close> waits for the network do to the state (app.js, lines 584 to 642: a
  category toggled, a date range selected and its own cycle started, a bookmark toggled);
  it is the identity when none runs.
\<close>

record env =
  fetch :: "jstring \<Rightarrow> fetch_outcome"
  items_of :: "jstring \<Rightarrow> rss_item list"
  entries_of :: "jstring \<Rightarrow> atom_entry list"
  toISOString :: jstring
  new_Date :: jsdate
  setDate :: "jsdate \<Rightarrow> int \<Rightarrow> jsdate"
  getDay :: nat
  storage_fault :: "exn option"
  JSON_parse :: "jstring \<Rightarrow> exn + bookmark list"
  JSON_stringify :: "bookmark list \<Rightarrow> jstring"
  handlers :: "state \<Rightarrow> state"

subsection \<open>Configuration (app.js, line 29)\<close>

definition CONFIG_feeds :: "feed list" where
  "CONFIG_feeds =
     [\<lparr>feed_id = js ''cs.LG'', feed_name = js ''Machine Learning'',
       feed_url = js ''https://export.arxiv.org/rss/cs.LG''\<rparr>,
      \<lparr>feed_id = js ''cs.CL'', feed_name = js ''NLP / LLMs'',
       feed_url = js ''https://export.arxiv.org/rss/cs.CL''\<rparr>,
      \<lparr>feed_id = js ''cs.AI'', feed_name = js ''General AI'',
       feed_url = js ''https://export.arxiv.org/rss/cs.AI''\<rparr>,
      \<lparr>feed_id = js ''cs.CV'', feed_name = js ''Computer Vision'',
       feed_url = js ''https://export.arxiv.org/rss/cs.CV''\<rparr>,
      \<lparr>feed_id = js ''cs.RO'', feed_name = js ''Robotics'',
       feed_url = js ''https://export.arxiv.org/rss/cs.RO''\<rparr>,
      \<lparr>feed_id = js ''cs.IR'', feed_name = js ''Information Retrieval'',
       feed_url = js ''https://export.arxiv.org/rss/cs.IR''\<rparr>,
      \<lparr>feed_id = js ''stat.ML'', feed_name = js ''Statistics ML'',
       feed_url = js ''https://export.arxiv.org/rss/stat.ML''\<rparr>]"

definition CONFIG_corsProxies :: "jstring list" where
  "CONFIG_corsProxies =
     [js ''http://localhost:3001/?url='',
      js ''https://api.codetabs.com/v1/proxy?quest='',
      js ''https://corsproxy.io/?'',
      js ''https://api.allorigins.win/raw?url='']"

section \<open>Format parsers\<close>

text \<open>
  The callback of \<^verbatim>\<open>items.forEach\<close> in \<^verbatim>\<open>parseFeed\<close> (app.js, lines 248 to 272): it takes
  the array \<^verbatim>\<open>papers\<close> and returns it, with the record pushed when the guard holds.
\<close>

definition parseFeed_item :: "env \<Rightarrow> jstring \<Rightarrow> paper list \<Rightarrow> nat \<times> rss_item \<Rightarrow> paper list" where
  "parseFeed_item e categoryId = (\<lambda>papers ix.
      let index = fst ix; item = snd ix;
          title = cleanText (or_else (item_title item) []);
          link = or_else (item_link item) [];
          description = or_else (item_description item) [];
          creator = or_else (item_creator item) (or_else (item_creator_dc item) []);
          abstract = cleanText description;
          id = extractArxivId link
      in if truthy title \<and> truthy link
         then papers @
           [\<lparr>id' = (if truthy id then id else categoryId @ js ''-'' @ String_of (int index)),
             title = strip_category_prefix title,
             link = link,
             abstract = abstract,
             authors = cleanText creator,
             category = categoryId,
             fetchedAt = toISOString e\<rparr>]
         else papers)"

text \<open>\<^verbatim>\<open>parseFeed\<close> (app.js, line 241).\<close>

definition parseFeed :: "env \<Rightarrow> jstring \<Rightarrow> jstring \<Rightarrow> paper list" where
  "parseFeed e xmlText categoryId =
     foldl (parseFeed_item e categoryId) [] (enumerate 0 (items_of e xmlText))"

text \<open>
  The callback of \<^verbatim>\<open>entries.forEach\<close> in \<^verbatim>\<open>parseArxivAPIResponse\<close> (app.js, lines 325 to
  350). The local \<^verbatim>\<open>link\<close> is computed as in the source; the record pushed takes its
  \<^verbatim>\<open>link\<close> field from \<^verbatim>\<open>id\<close>.
\<close>

definition entry_link :: "atom_entry \<Rightarrow> jstring \<Rightarrow> jstring" where
  "entry_link entry ident =
     or_else (case entry_link_pdf entry of None \<Rightarrow> None | Some href \<Rightarrow> href)
       (or_else (case entry_link_alternate entry of None \<Rightarrow> None | Some href \<Rightarrow> href)
          ident)"

definition parseArxivAPIResponse_entry ::
    "env \<Rightarrow> jstring \<Rightarrow> paper list \<Rightarrow> nat \<times> atom_entry \<Rightarrow> paper list" where
  "parseArxivAPIResponse_entry e categoryId = (\<lambda>papers ix.
      let index = fst ix; entry = snd ix;
          title = cleanText (or_else (entry_title entry) []);
          id = or_else (entry_id entry) [];
          summary = or_else (entry_summary entry) [];
          authors = (case entry_author_names entry of
                       [] \<Rightarrow> []
                     | a # as \<Rightarrow> foldl (\<lambda>s n. s @ js '', '' @ n) a as);
          link = entry_link entry id;
          arxivId = or_else (match_abs id) (split_pop id)
      in if truthy title \<and> truthy arxivId
         then papers @
           [\<lparr>id' = arxivId,
             title = title,
             link = replace_first (js ''http://'') (js ''https://'') id,
             abstract = cleanText summary,
             authors = authors,
             category = categoryId,
             fetchedAt = toISOString e\<rparr>]
         else papers)"

text \<open>\<^verbatim>\<open>parseArxivAPIResponse\<close> (app.js, line 318).\<close>

definition parseArxivAPIResponse :: "env \<Rightarrow> jstring \<Rightarrow> jstring \<Rightarrow> paper list" where
  "parseArxivAPIResponse e xmlText categoryId =
     foldl (parseArxivAPIResponse_entry e categoryId) [] (enumerate 0 (entries_of e xmlText))"

section \<open>Transport chain\<close>

text \<open>
  The \<^verbatim>\<open>try\<close> block in the body of the loop over \<^verbatim>\<open>CONFIG.corsProxies\<close>, the same in
  \<^verbatim>\<open>fetchFeed\<close> (app.js, lines 221 to 230) and in \<^verbatim>\<open>fetchFromArxivAPI\<close> (lines 299 to 308)
  up to the parser called. \<open>Inl\<close> is an exception thrown inside the block, \<open>Inr (Some papers)\<close>
  is \<^verbatim>\<open>return papers\<close>, and \<open>Inr None\<close> leaves the block without returning.
\<close>

definition try_proxy :: "env \<Rightarrow> (jstring \<Rightarrow> paper list) \<Rightarrow> jstring \<Rightarrow> exn + paper list option" where
  "try_proxy e parse url =
     (case fetch e url of
        Rejected x \<Rightarrow> Inl x
      | Response ok body \<Rightarrow>
          if \<not> ok then Inr None
          else (case body of
                  Inl x \<Rightarrow> Inl x
                | Inr text \<Rightarrow>
                    let papers = parse text
                    in if length papers > 0 then Inr (Some papers) else Inr None))"

text \<open>
  The loop. The URL is built before the \<^verbatim>\<open>try\<close>, so an exception of \<^verbatim>\<open>encodeURIComponent\<close>
  leaves the function; the \<^verbatim>\<open>catch\<close> logs and goes on with the next proxy. The second
  component is the list of the URLs requested, in the order of the requests.
\<close>

fun proxy_loop ::
    "env \<Rightarrow> (jstring \<Rightarrow> paper list) \<Rightarrow> jstring \<Rightarrow> jstring list \<Rightarrow> (exn + paper list) \<times> jstring list" where
  "proxy_loop e parse target [] = (Inr [], [])"
| "proxy_loop e parse target (proxy # rest) =
     (case encodeURIComponent target of
        Inl x \<Rightarrow> (Inl x, [])
      | Inr encoded \<Rightarrow>
          let url = proxy @ encoded
          in (case try_proxy e parse url of
                Inr (Some found) \<Rightarrow> (Inr found, [url])
              | Inr None \<Rightarrow>
                  (fst (proxy_loop e parse target rest), url # snd (proxy_loop e parse target rest))
              | Inl thrown \<Rightarrow>
                  (fst (proxy_loop e parse target rest), url # snd (proxy_loop e parse target rest))))"

text \<open>\<^verbatim>\<open>fetchFeed\<close> (app.js, line 216).\<close>

definition fetchFeed :: "env \<Rightarrow> feed \<Rightarrow> (exn + paper list) \<times> jstring list" where
  "fetchFeed e feed =
     proxy_loop e (\<lambda>text. parseFeed e text (feed_id feed)) (feed_url feed) CONFIG_corsProxies"

text \<open>\<^verbatim>\<open>formatArxivDate\<close> (app.js, line 278) and \<^verbatim>\<open>fetchFromArxivAPI\<close> (line 284).\<close>

definition formatArxivDate :: "jsdate \<Rightarrow> jstring" where
  "formatArxivDate date =
     String_of (getFullYear date) @ pad (getMonth date + 1) @ pad (getDate date) @ js ''0000''"

definition fetchFromArxivAPI :: "env \<Rightarrow> jstring \<Rightarrow> int \<Rightarrow> (exn + paper list) \<times> jstring list" where
  "fetchFromArxivAPI e = (\<lambda>category daysBack.
      let endDate = new_Date e;
          startDate = setDate e (new_Date e) (int (getDate (new_Date e)) - daysBack);
          dateQuery = js ''submittedDate:['' @ formatArxivDate startDate @ js ''+TO+'' @
                      formatArxivDate endDate @ js '']'';
          catQuery = js ''cat:'' @ category;
          query = catQuery @ js ''+AND+'' @ dateQuery;
          apiUrl = js ''https://export.arxiv.org/api/query?search_query='' @ query @
                   js ''&start=0&max_results=100&sortBy=submittedDate&sortOrder=descending''
      in proxy_loop e (\<lambda>text. parseArxivAPIResponse e text category) apiUrl CONFIG_corsProxies)"

section \<open>Aggregator\<close>

text \<open>
  \<^verbatim>\<open>Promise.all\<close> over the calls: every call runs, and the promise rejects when one of
  them has thrown. The \<^verbatim>\<open>catch\<close> of \<^verbatim>\<open>fetchAllFeeds\<close> does not look at which one.
\<close>

fun Promise_all :: "(exn + 'a) list \<Rightarrow> exn + 'a list" where
  "Promise_all [] = Inr []"
| "Promise_all (Inl x # rest) = Inl x"
| "Promise_all (Inr v # rest) =
     (case Promise_all rest of Inl x \<Rightarrow> Inl x | Inr vs \<Rightarrow> Inr (v # vs))"

text \<open>The calls of lines 363 to 373, one per feed or one per active category.\<close>

definition fetch_calls :: "env \<Rightarrow> state \<Rightarrow> ((exn + paper list) \<times> jstring list) list" where
  "fetch_calls e st =
     (if dateRange st = js ''today'' then map (\<lambda>feed. fetchFeed e feed) CONFIG_feeds
      else
        let daysBack = (if dateRange st = js ''week'' then 7 else 30);
            categories = activeCategories st
        in map (\<lambda>cat. fetchFromArxivAPI e cat daysBack) categories)"

definition await_results :: "env \<Rightarrow> state \<Rightarrow> exn + paper list list" where
  "await_results e st = Promise_all (map fst (fetch_calls e st))"

text \<open>The loop of lines 380 to 385 over \<^verbatim>\<open>allPapers\<close>, with \<^verbatim>\<open>seenIds\<close> and \<^verbatim>\<open>uniquePapers\<close>.\<close>

fun dedup_loop :: "paper list \<Rightarrow> jstring set \<Rightarrow> paper list \<Rightarrow> paper list" where
  "dedup_loop [] seenIds uniquePapers = uniquePapers"
| "dedup_loop (paper # rest) seenIds uniquePapers =
     (if id' paper \<notin> seenIds then dedup_loop rest (insert (id' paper) seenIds) (uniquePapers @ [paper])
      else dedup_loop rest seenIds uniquePapers)"

definition weekend_message :: jstring where
  \<open>weekend_message =
     js ''No new papers today. arXiv does not publish on weekends'' @ [0x2014] @
     js ''try "Past 7 Days" instead!''\<close>

definition unavailable_message :: jstring where
  "unavailable_message = js ''No papers found. The feeds may be temporarily unavailable.''"

definition range_message :: jstring where
  "range_message = js ''No papers found for this date range. Try different categories.''"

definition failure_message :: jstring where
  "failure_message = js ''Failed to load papers. Please try again.''"

text \<open>
  The state in which \<^verbatim>\<open>fetchAllFeeds\<close> goes on after \<^verbatim>\<open>await Promise.all(...)\<close> has returned.
  Every call requests a URL before it returns, so with at least one call the function
  waits for the network and the event handlers may run in between. With no call the
  promise is settled at once and the function goes on before any handler can run.
\<close>

definition resumed :: "env \<Rightarrow> state \<Rightarrow> state" where
  "resumed e st = (if fetch_calls e st = [] then st else handlers e st)"

text \<open>
  \<^verbatim>\<open>fetchAllFeeds\<close> (app.js, line 355): the new state and the URLs requested, source by
  source. \<^verbatim>\<open>state.dateRange\<close> is read before the \<^verbatim>\<open>await\<close> (lines 363 and 369, in
  \<open>fetch_calls\<close>) and again after it (line 391), there from the state as the handlers have
  left it. A call throws only before its first request, so a rejected \<^verbatim>\<open>Promise.all\<close> is
  rejected at once, and the \<^verbatim>\<open>catch\<close> runs before any handler. \<^verbatim>\<open>applyFilters\<close> and
  \<^verbatim>\<open>updateUI\<close> write to the page and to the fields left out of \<open>state\<close>.
\<close>

definition fetchAllFeeds :: "env \<Rightarrow> state \<Rightarrow> state \<times> jstring list" where
  "fetchAllFeeds e st0 =
     (let st = st0\<lparr>isLoading := True, error := None\<rparr>;
          requests = concat (map snd (fetch_calls e st))
      in case await_results e st of
           Inr results \<Rightarrow>
             let st' = resumed e st;
                 allPapers = concat results;
                 uniquePapers = dedup_loop allPapers {} [];
                 st1 = st'\<lparr>papers := uniquePapers, isLoading := False\<rparr>
             in if length (papers st1) = 0
                then if dateRange st1 = js ''today''
                     then let day = getDay e;
                              isWeekend = (day = 0 \<or> day = 6)
                          in (st1\<lparr>error := Some (if isWeekend then weekend_message
                                                  else unavailable_message)\<rparr>, requests)
                     else (st1\<lparr>error := Some range_message\<rparr>, requests)
                else (st1, requests)
         | Inl x \<Rightarrow> (st\<lparr>isLoading := False, error := Some failure_message\<rparr>, requests))"

section \<open>Bookmark store\<close>

text \<open>
  \<^verbatim>\<open>loadBookmarks\<close> (app.js, line 162): the \<^verbatim>\<open>try\<close> block, then the function with its
  \<^verbatim>\<open>catch\<close>. The result is a sum so that an exception leaving the function would show.
\<close>

definition loadBookmarks_try :: "env \<Rightarrow> state \<Rightarrow> exn + state" where
  "loadBookmarks_try e st =
     (case storage_fault e of
        Some x \<Rightarrow> Inl x
      | None \<Rightarrow>
          (case localStorage st of
             None \<Rightarrow> Inr (st\<lparr>bookmarks := []\<rparr>)
           | Some stored \<Rightarrow>
               if truthy stored
               then (case JSON_parse e stored of
                       Inl x \<Rightarrow> Inl x
                     | Inr v \<Rightarrow> Inr (st\<lparr>bookmarks := v\<rparr>))
               else Inr (st\<lparr>bookmarks := []\<rparr>)))"

definition loadBookmarks :: "env \<Rightarrow> state \<Rightarrow> exn + state" where
  "loadBookmarks e st =
     (case loadBookmarks_try e st of
        Inr st' \<Rightarrow> Inr st'
      | Inl x \<Rightarrow> Inr (st\<lparr>bookmarks := []\<rparr>))"

text \<open>\<^verbatim>\<open>saveBookmarks\<close> (line 172), \<^verbatim>\<open>isBookmarked\<close> (line 180).\<close>

definition saveBookmarks :: "env \<Rightarrow> state \<Rightarrow> state" where
  "saveBookmarks e st =
     (case storage_fault e of
        Some x \<Rightarrow> st
      | None \<Rightarrow> st\<lparr>localStorage := Some (JSON_stringify e (bookmarks st))\<rparr>)"

definition isBookmarked :: "state \<Rightarrow> jstring \<Rightarrow> bool" where
  "isBookmarked st paperId = list_ex (\<lambda>b. b_id b = paperId) (bookmarks st)"

text \<open>\<^verbatim>\<open>Array.prototype.findIndex\<close>: the first index whose element passes, else \<open>-1\<close>.\<close>

fun findIndex :: "('a \<Rightarrow> bool) \<Rightarrow> 'a list \<Rightarrow> int" where
  "findIndex P [] = - 1"
| "findIndex P (x # xs) =
     (if P x then 0 else if findIndex P xs = - 1 then - 1 else findIndex P xs + 1)"

text \<open>\<^verbatim>\<open>toggleBookmark\<close> (line 184) and \<^verbatim>\<open>removeBookmark\<close> (line 204), up to the rendering.\<close>

definition toggleBookmark :: "env \<Rightarrow> paper \<Rightarrow> state \<Rightarrow> state" where
  "toggleBookmark e paper st =
     (let index = findIndex (\<lambda>b. b_id b = id' paper) (bookmarks st)
      in saveBookmarks e
           (if index > - 1
            then st\<lparr>bookmarks := take (nat index) (bookmarks st) @ drop (nat index + 1) (bookmarks st)\<rparr>
            else st\<lparr>bookmarks := bookmarks st @
                   [\<lparr>b_id = id' paper, b_title = title paper, b_link = link paper,
                     b_category = category paper, addedAt = toISOString e\<rparr>]\<rparr>))"

definition removeBookmark :: "env \<Rightarrow> jstring \<Rightarrow> state \<Rightarrow> state" where
  "removeBookmark e paperId st =
     saveBookmarks e (st\<lparr>bookmarks := filter (\<lambda>b. b_id b \<noteq> paperId) (bookmarks st)\<rparr>)"

section \<open>Outcome of one transport candidate\<close>

text \<open>
  What the transport chain is claimed to do with one candidate URL: the request is a
  soft failure when it is rejected, when the status is not a success, when the body
  cannot be read, or when the body parses to no record; otherwise the candidate delivers
  the records parsed from its body.
\<close>

definition soft_failure :: "env \<Rightarrow> (jstring \<Rightarrow> paper list) \<Rightarrow> jstring \<Rightarrow> bool" where
  "soft_failure e parse url =
     (case fetch e url of
        Rejected x \<Rightarrow> True
      | Response ok body \<Rightarrow> \<not> ok \<or> (case body of Inl x \<Rightarrow> True | Inr text \<Rightarrow> parse text = []))"

definition delivered :: "env \<Rightarrow> (jstring \<Rightarrow> paper list) \<Rightarrow> jstring \<Rightarrow> paper list" where
  "delivered e parse url =
     (case fetch e url of
        Rejected x \<Rightarrow> []
      | Response ok body \<Rightarrow> (case body of Inl x \<Rightarrow> [] | Inr text \<Rightarrow> parse text))"

section \<open>Example inputs\<close>

text \<open>
  A run on Saturday 28 November 2026 in which every request is rejected, the stored
  bookmarks do not parse, no event handler runs during a cycle, and \<^verbatim>\<open>setDate\<close> is right for arguments from \<open>-30\<close> to \<open>30\<close>.
\<close>

definition example_env :: env where
  "example_env =
     \<lparr>fetch = (\<lambda>url. Rejected TypeError),
      items_of = (\<lambda>text. []),
      entries_of = (\<lambda>text. []),
      toISOString = js ''2026-11-28T12:00:00.000Z'',
      new_Date = \<lparr>getFullYear = 2026, getMonth = 10, getDate = 28\<rparr>,
      setDate = (\<lambda>d n. if 1 \<le> n then d\<lparr>getDate := nat n\<rparr>
                          else d\<lparr>getMonth := getMonth d - 1, getDate := nat (31 + n)\<rparr>),
      getDay = 6,
      storage_fault = None,
      JSON_parse = (\<lambda>s. Inl SyntaxError),
      JSON_stringify = (\<lambda>bs. js ''[]''),
      handlers = (\<lambda>st. st)\<rparr>"

definition example_paper :: paper where
  "example_paper =
     \<lparr>id' = js ''2401.00001'', title = js ''Attention'', link = js ''https://arxiv.org/abs/2401.00001'',
      abstract = js ''An abstract.'', authors = js ''A. Author'', category = js ''cs.LG'',
      fetchedAt = js ''2026-11-27T12:00:00.000Z''\<rparr>"

definition example_state :: state where
  "example_state =
     \<lparr>papers = [example_paper],
      bookmarks = [],
      activeCategories = [js ''cs.LG'', js ''cs.CL'', js ''cs.AI'', js ''cs.CV'', js ''cs.RO'',
                          js ''cs.IR'', js ''stat.ML''],
      dateRange = js ''today'',
      isLoading = False,
      error = None,
      localStorage = None\<rparr>"

text \<open>A syndication item whose title is only a category tag, and one with an \<^verbatim>\<open>http\<close> link.\<close>

definition tag_only_item :: rss_item where
  "tag_only_item =
     \<lparr>item_title = Some (js ''(cs.LG)''),
      item_link = Some (js ''https://arxiv.org/abs/2401.00001''),
      item_description = Some (js ''An abstract.''),
      item_creator = Some (js ''A. Author''),
      item_creator_dc = None\<rparr>"

definition http_item :: rss_item where
  "http_item =
     \<lparr>item_title = Some (js ''Attention''),
      item_link = Some (js ''http://arxiv.org/abs/2401.00001''),
      item_description = Some (js ''An abstract.''),
      item_creator = Some (js ''A. Author''),
      item_creator_dc = None\<rparr>"

text \<open>A query-response entry with a link tagged \<^verbatim>\<open>pdf\<close> and an alternate link.\<close>

definition pdf_entry :: atom_entry where
  "pdf_entry =
     \<lparr>entry_title = Some (js ''Attention''),
      entry_id = Some (js ''http://arxiv.org/abs/2401.00001v1''),
      entry_summary = Some (js ''An abstract.''),
      entry_author_names = [js ''A. Author'', js ''B. Author''],
      entry_link_pdf = Some (Some (js ''https://arxiv.org/pdf/2401.00001v1'')),
      entry_link_alternate = Some (Some (js ''https://arxiv.org/abs/2401.00001v1''))\<rparr>"

text \<open>
  A network in which every relay answers, and every answer holds the one entry
  \<open>pdf_entry\<close>: two categories then return a record with the same identifier.
\<close>

definition duplicate_env :: env where
  "duplicate_env =
     example_env\<lparr>fetch := (\<lambda>url. Response True (Inr (js ''<feed/>''))),
                 entries_of := (\<lambda>text. [pdf_entry])\<rparr>"

definition two_category_state :: state where
  "two_category_state =
     example_state\<lparr>activeCategories := [js ''cs.LG'', js ''cs.AI''], dateRange := js ''week''\<rparr>"

text \<open>
  For the feed \<^verbatim>\<open>cs.LG\<close>: the local relay is down, the first public relay answers with
  an error status, the second with a body that holds no item, the third cannot be reached.
\<close>

definition failing_env :: env where
  "failing_env =
     example_env\<lparr>fetch := (\<lambda>url.
        if url = js ''https://api.codetabs.com/v1/proxy?quest=https%3A%2F%2Fexport.arxiv.org%2Frss%2Fcs.LG''
        then Response False (Inr (js ''Too Many Requests''))
        else if url = js ''https://corsproxy.io/?https%3A%2F%2Fexport.arxiv.org%2Frss%2Fcs.LG''
        then Response True (Inr (js ''<html></html>''))
        else Rejected TypeError)\<rparr>"

definition cs_LG_feed :: feed where
  "cs_LG_feed =
     \<lparr>feed_id = js ''cs.LG'', feed_name = js ''Machine Learning'',
      feed_url = js ''https://export.arxiv.org/rss/cs.LG''\<rparr>"

text \<open>A category name that is a lone surrogate, on which \<^verbatim>\<open>encodeURIComponent\<close> throws.\<close>

definition surrogate_state :: state where
  "surrogate_state = example_state\<lparr>activeCategories := [[0xD800]], dateRange := js ''week''\<rparr>"

text \<open>
  The same run, but for a selection of \<^verbatim>\<open>Past 7 Days\<close> while the cycle waits: the handler
  of lines 597 to 601 sets \<^verbatim>\<open>state.dateRange\<close> and starts a cycle of its own, which sets
  \<^verbatim>\<open>isLoading\<close> and clears \<^verbatim>\<open>error\<close> before its first \<^verbatim>\<open>await\<close>.
\<close>

definition switching_env :: env where
  "switching_env =
     example_env\<lparr>handlers := (\<lambda>st. st\<lparr>dateRange := js ''week'', isLoading := True, error := None\<rparr>)\<rparr>"

definition no_category_state :: state where
  "no_category_state = example_state\<lparr>activeCategories := [], dateRange := js ''month''\<rparr>"

text \<open>A state with one bookmark, for the paper \<open>example_paper\<close>, and the slot as saved.\<close>

definition example_bookmark :: bookmark where
  "example_bookmark =
     \<lparr>b_id = js ''2401.00001'', b_title = js ''Attention'',
      b_link = js ''https://arxiv.org/abs/2401.00001'', b_category = js ''cs.LG'',
      addedAt = js ''2026-11-27T12:00:00.000Z''\<rparr>"

definition bookmarked_state :: state where
  "bookmarked_state = example_state\<lparr>bookmarks := [example_bookmark]\<rparr>"

definition corrupted_state :: state where
  "corrupted_state = example_state\<lparr>bookmarks := [example_bookmark], localStorage := Some (js ''[{'')\<rparr>"

text \<open>The documents of the two items and of the entry, and browsers that parse them.\<close>

definition tag_only_document :: jstring where
  "tag_only_document =
     js ''<rss><channel><item><title>(cs.LG)</title><link>https://arxiv.org/abs/2401.00001</link><description>An abstract.</description><creator>A. Author</creator></item></channel></rss>''"

definition tag_only_env :: env where
  "tag_only_env =
     example_env\<lparr>items_of := (\<lambda>text. if text = tag_only_document then [tag_only_item] else [])\<rparr>"

definition http_document :: jstring where
  "http_document =
     js ''<rss><channel><item><title>Attention</title><link>http://arxiv.org/abs/2401.00001</link><description>An abstract.</description><creator>A. Author</creator></item></channel></rss>''"

definition http_env :: env where
  "http_env =
     example_env\<lparr>items_of := (\<lambda>text. if text = http_document then [http_item] else [])\<rparr>"

definition pdf_document :: jstring where
  \<open>pdf_document =
     js ''<feed><entry><id>http://arxiv.org/abs/2401.00001v1</id><title>Attention</title><summary>An abstract.</summary><author><name>A. Author</name></author><author><name>B. Author</name></author><link title="pdf" href="https://arxiv.org/pdf/2401.00001v1"/><link rel="alternate" href="https://arxiv.org/abs/2401.00001v1"/></entry></feed>''\<close>

definition pdf_env :: env where
  "pdf_env =
     example_env\<lparr>entries_of := (\<lambda>text. if text = pdf_document then [pdf_entry] else [])\<rparr>"

text \<open>The record of \<open>pdf_entry\<close> as the categories \<^verbatim>\<open>cs.LG\<close> and \<^verbatim>\<open>cs.AI\<close> return it.\<close>

definition first_version :: paper where
  "first_version =
     \<lparr>id' = js ''2401.00001v1'', title = js ''Attention'',
      link = js ''https://arxiv.org/abs/2401.00001v1'', abstract = js ''An abstract.'',
      authors = js ''A. Author, B. Author'', category = js ''cs.LG'',
      fetchedAt = js ''2026-11-28T12:00:00.000Z''\<rparr>"

definition second_version :: paper where
  "second_version = first_version\<lparr>category := js ''cs.AI''\<rparr>"

section \<open>The transport chain\<close>

text \<open>No source literal holds a surrogate, so \<^verbatim>\<open>encodeURIComponent\<close> returns on each.\<close>

lemma of_char_lt: "(of_char c :: 16 word) < 0x100"
proof -
  have n: "(of_char c :: nat) < 256"
    using of_char_mod_256 [of c, where ?'a = nat] mod_less_divisor [of 256 "of_char c"]
    by simp
  have "(of_char c :: 16 word) = of_nat (of_char c)"
    by (simp add: of_nat_of_char)
  moreover have "unat (of_nat (of_char c) :: 16 word) = of_char c"
  proof -
    have "(of_char c :: nat) mod 65536 = of_char c"
      by (rule mod_less) (use n in linarith)
    then show ?thesis by (simp add: unat_of_nat)
  qed
  ultimately show ?thesis
    using n by (simp add: word_less_nat_alt)
qed

lemma js_no_surrogate: "c \<in> set (js s) \<Longrightarrow> c < 0xD800"
proof -
  assume "c \<in> set (js s)"
  then obtain ch where "c = of_char ch" by (auto simp: js_def)
  with of_char_lt [of ch] show ?thesis
    by (simp add: word_less_nat_alt)
qed

lemma encodeURIComponent_no_surrogate:
  "\<forall>c\<in>set s. c < 0xD800 \<Longrightarrow> \<exists>r. encodeURIComponent s = Inr r"
proof (induction s rule: encodeURIComponent.induct)
  case 1
  then show ?case by simp
next
  case (2 c)
  then have "\<not> 0xD800 \<le> c" by (simp add: word_less_nat_alt word_le_nat_alt)
  then show ?case by simp
next
  case (3 c d ds)
  then have c: "\<not> 0xDC00 \<le> c" "\<not> 0xD800 \<le> c"
    by (simp_all add: word_less_nat_alt word_le_nat_alt)
  from 3 have rest: "\<forall>c\<in>set (d # ds). c < 0xD800" by simp
  show ?case
  proof (cases "uriUnreserved c")
    case True
    with "3.IH"(1) rest obtain r where "encodeURIComponent (d # ds) = Inr r" by blast
    with True show ?thesis by simp
  next
    case False
    with "3.IH"(3) c rest obtain r where "encodeURIComponent (d # ds) = Inr r" by blast
    with False c show ?thesis by simp
  qed
qed

lemma encodeURIComponent_js: "\<exists>r. encodeURIComponent (js s) = Inr r"
  by (rule encodeURIComponent_no_surrogate) (simp add: js_no_surrogate)

lemma CONFIG_feeds_encode:
  "feed \<in> set CONFIG_feeds \<Longrightarrow> \<exists>r. encodeURIComponent (feed_url feed) = Inr r"
  by (auto simp: CONFIG_feeds_def encodeURIComponent_js)

lemma proxy_loop_chain:
  assumes "encodeURIComponent target = Inr enc"
  shows "proxy_loop e parse target proxies =
     (Inr (case dropWhile (soft_failure e parse) (map (\<lambda>p. p @ enc) proxies) of
             [] \<Rightarrow> [] | url # rest \<Rightarrow> delivered e parse url),
      takeWhile (soft_failure e parse) (map (\<lambda>p. p @ enc) proxies) @
      take 1 (dropWhile (soft_failure e parse) (map (\<lambda>p. p @ enc) proxies)))"
proof (induction proxies)
  case Nil
  then show ?case by simp
next
  case (Cons proxy rest)
  show ?case
  proof (cases "soft_failure e parse (proxy @ enc)")
    case True
    then have "try_proxy e parse (proxy @ enc) = Inr None \<or> (\<exists>x. try_proxy e parse (proxy @ enc) = Inl x)"
      by (auto simp: soft_failure_def try_proxy_def split: fetch_outcome.splits sum.splits)
    with True Cons assms show ?thesis by auto
  next
    case False
    then have "try_proxy e parse (proxy @ enc) = Inr (Some (delivered e parse (proxy @ enc)))"
      by (auto simp: soft_failure_def try_proxy_def delivered_def split: fetch_outcome.splits sum.splits)
    with False assms show ?thesis by (simp add: Let_def)
  qed
qed

text \<open>
  Claim C3. For every configured feed, \<^verbatim>\<open>fetchFeed\<close> requests the candidate URLs in the
  order of \<^verbatim>\<open>CONFIG.corsProxies\<close>, once each, as long as the candidates are soft
  failures (request rejected, status not a success, body unreadable, or no record parsed
  from the body), and stops at the first candidate that is not; it returns the records of
  that candidate, and when every candidate fails it returns the empty list after
  requesting each candidate once. It never throws.
\<close>

theorem fetchFeed_transport_chain:
  "\<forall>feed \<in> set CONFIG_feeds.
     \<exists>encoded. encodeURIComponent (feed_url feed) = Inr encoded \<and>
       (let parse = (\<lambda>text. parseFeed e text (feed_id feed));
            urls = map (\<lambda>proxy. proxy @ encoded) CONFIG_corsProxies
        in snd (fetchFeed e feed) =
             takeWhile (soft_failure e parse) urls @ take 1 (dropWhile (soft_failure e parse) urls) \<and>
           fst (fetchFeed e feed) =
             Inr (case dropWhile (soft_failure e parse) urls of
                    [] \<Rightarrow> [] | url # rest \<Rightarrow> delivered e parse url) \<and>
           ((\<forall>url \<in> set urls. soft_failure e parse url) \<longrightarrow> fetchFeed e feed = (Inr [], urls)))"
proof
  fix feed
  assume "feed \<in> set CONFIG_feeds"
  then obtain encoded where enc: "encodeURIComponent (feed_url feed) = Inr encoded"
    using CONFIG_feeds_encode by blast
  define parse where "parse = (\<lambda>text. parseFeed e text (feed_id feed))"
  define urls where "urls = map (\<lambda>proxy. proxy @ encoded) CONFIG_corsProxies"
  have chain: "fetchFeed e feed =
      (Inr (case dropWhile (soft_failure e parse) urls of [] \<Rightarrow> [] | url # rest \<Rightarrow> delivered e parse url),
       takeWhile (soft_failure e parse) urls @ take 1 (dropWhile (soft_failure e parse) urls))"
    unfolding fetchFeed_def parse_def urls_def by (rule proxy_loop_chain [OF enc])
  have all: "fetchFeed e feed = (Inr [], urls)" if "\<forall>url \<in> set urls. soft_failure e parse url"
  proof -
    from that have "dropWhile (soft_failure e parse) urls = []" "takeWhile (soft_failure e parse) urls = urls"
      by simp_all
    with chain show ?thesis by simp
  qed
  from enc chain all
  show "\<exists>encoded. encodeURIComponent (feed_url feed) = Inr encoded \<and>
       (let parse = (\<lambda>text. parseFeed e text (feed_id feed));
            urls = map (\<lambda>proxy. proxy @ encoded) CONFIG_corsProxies
        in snd (fetchFeed e feed) =
             takeWhile (soft_failure e parse) urls @ take 1 (dropWhile (soft_failure e parse) urls) \<and>
           fst (fetchFeed e feed) =
             Inr (case dropWhile (soft_failure e parse) urls of
                    [] \<Rightarrow> [] | url # rest \<Rightarrow> delivered e parse url) \<and>
           ((\<forall>url \<in> set urls. soft_failure e parse url) \<longrightarrow> fetchFeed e feed = (Inr [], urls)))"
    unfolding parse_def urls_def Let_def by (intro exI [of _ encoded]) simp
qed

theorem fetchFeed_transport_chain_witness:
  "cs_LG_feed \<in> set CONFIG_feeds \<and>
   fetchFeed failing_env cs_LG_feed =
     (Inr [], map (\<lambda>proxy. proxy @ js ''https%3A%2F%2Fexport.arxiv.org%2Frss%2Fcs.LG'') CONFIG_corsProxies)"
proof -
  have mem: "cs_LG_feed \<in> set CONFIG_feeds"
    by (simp add: cs_LG_feed_def CONFIG_feeds_def)
  have enc: "encodeURIComponent (feed_url cs_LG_feed) =
               Inr (js ''https%3A%2F%2Fexport.arxiv.org%2Frss%2Fcs.LG'')"
    by code_simp
  have fail: "\<forall>url \<in> set (map (\<lambda>proxy. proxy @ js ''https%3A%2F%2Fexport.arxiv.org%2Frss%2Fcs.LG'')
                              CONFIG_corsProxies).
                soft_failure failing_env (\<lambda>text. parseFeed failing_env text (feed_id cs_LG_feed)) url"
    by (simp add: CONFIG_corsProxies_def soft_failure_def failing_env_def example_env_def
        parseFeed_def js_def)
  from fetchFeed_transport_chain [of failing_env] mem enc fail show ?thesis
    by (auto simp: Let_def)
qed

text \<open>
  The configured URLs matter here: the URL of a candidate is built outside the \<^verbatim>\<open>try\<close>
  block, and on a feed whose URL holds a lone surrogate \<^verbatim>\<open>fetchFeed\<close> throws before any
  request.
\<close>

lemma fetchFeed_throws_on_lone_surrogate:
  "fetchFeed e (feed\<lparr>feed_url := [0xD800]\<rparr>) = (Inl URIError, [])"
  by (simp add: fetchFeed_def CONFIG_corsProxies_def uriUnreserved_def)

section \<open>The aggregator\<close>

subsection \<open>The loop that removes duplicates\<close>

lemma find_append_cases:
  "find P (xs @ ys) = (case find P xs of None \<Rightarrow> find P ys | Some x \<Rightarrow> Some x)"
  by (induction xs) auto

lemma dedup_loop_distinct:
  "seenIds = set (map id' uniquePapers) \<Longrightarrow> distinct (map id' uniquePapers) \<Longrightarrow>
   distinct (map id' (dedup_loop allPapers seenIds uniquePapers))"
proof (induction allPapers arbitrary: seenIds uniquePapers)
  case Nil
  then show ?case by simp
next
  case (Cons paper rest)
  show ?case
  proof (cases "id' paper \<in> seenIds")
    case True
    with Cons show ?thesis by simp
  next
    case False
    have "distinct (map id' (dedup_loop rest (insert (id' paper) seenIds) (uniquePapers @ [paper])))"
      using Cons.prems False by (intro Cons.IH) auto
    with False show ?thesis by simp
  qed
qed

lemma dedup_loop_first:
  "seenIds = set (map id' uniquePapers) \<Longrightarrow>
   find (\<lambda>p. id' p = i) (dedup_loop allPapers seenIds uniquePapers) =
   find (\<lambda>p. id' p = i) (uniquePapers @ allPapers)"
proof (induction allPapers arbitrary: seenIds uniquePapers)
  case Nil
  then show ?case by simp
next
  case (Cons paper rest)
  show ?case
  proof (cases "id' paper \<in> seenIds")
    case True
    then obtain q where q: "q \<in> set uniquePapers" "id' q = id' paper"
      using Cons.prems by auto
    have skip: "find (\<lambda>p. id' p = i) (uniquePapers @ paper # rest) =
                find (\<lambda>p. id' p = i) (uniquePapers @ rest)"
    proof (cases "i = id' paper")
      case True
      with q have "find (\<lambda>p. id' p = i) uniquePapers \<noteq> None"
        by (auto simp: find_None_iff)
      then show ?thesis by (auto simp: find_append_cases)
    next
      case False
      then show ?thesis by (auto simp: find_append_cases split: option.splits)
    qed
    from True Cons.IH [OF Cons.prems] skip show ?thesis by simp
  next
    case False
    have "find (\<lambda>p. id' p = i) (dedup_loop rest (insert (id' paper) seenIds) (uniquePapers @ [paper])) =
          find (\<lambda>p. id' p = i) ((uniquePapers @ [paper]) @ rest)"
      using Cons.prems by (intro Cons.IH) auto
    with False show ?thesis by simp
  qed
qed

subsection \<open>The two ways a cycle ends\<close>

text \<open>
  The calls depend on \<^verbatim>\<open>dateRange\<close> and \<^verbatim>\<open>activeCategories\<close> only, so the two assignments
  that open \<^verbatim>\<open>fetchAllFeeds\<close> do not change them.
\<close>

lemma fetch_calls_started [simp]:
  "fetch_calls e (st\<lparr>isLoading := a, error := b\<rparr>) = fetch_calls e st"
  by (simp add: fetch_calls_def)

lemma await_results_started [simp]:
  "await_results e (st\<lparr>isLoading := a, error := b\<rparr>) = await_results e st"
  by (simp add: await_results_def)

lemma resumed_started [simp]:
  "fetch_calls e st = [] \<Longrightarrow> resumed e (st\<lparr>isLoading := a, error := b\<rparr>) = st\<lparr>isLoading := a, error := b\<rparr>"
  by (simp add: resumed_def)

lemma fetchAllFeeds_settled:
  assumes "await_results e st = Inr results"
  shows "papers (fst (fetchAllFeeds e st)) = dedup_loop (concat results) {} []"
    and "snd (fetchAllFeeds e st) = concat (map snd (fetch_calls e st))"
    and "dateRange (fst (fetchAllFeeds e st)) =
           dateRange (resumed e (st\<lparr>isLoading := True, error := None\<rparr>))"
    and "error (fst (fetchAllFeeds e st)) =
           (if dedup_loop (concat results) {} [] = []
            then Some (if dateRange (resumed e (st\<lparr>isLoading := True, error := None\<rparr>)) = js ''today''
                       then if getDay e = 0 \<or> getDay e = 6 then weekend_message else unavailable_message
                       else range_message)
            else error (resumed e (st\<lparr>isLoading := True, error := None\<rparr>)))"
  using assms by (simp_all add: fetchAllFeeds_def Let_def)

lemma fetchAllFeeds_thrown:
  assumes "await_results e st = Inl x"
  shows "fst (fetchAllFeeds e st) = st\<lparr>isLoading := False, error := Some failure_message\<rparr>"
  using assms by (simp add: fetchAllFeeds_def Let_def)

text \<open>
  Claim C1. When the calls of a cycle have all returned, in snapshot mode as in
  ranged-query mode, no two records of \<^verbatim>\<open>state.papers\<close> have the same \<^verbatim>\<open>id\<close>, and for every
  identifier the record kept is the first one with that identifier in the concatenation
  of the per-source results (none when the concatenation has none).
\<close>

theorem merged_collection_deduplicated:
  assumes "await_results e st = Inr results"
  shows "distinct (map id' (papers (fst (fetchAllFeeds e st)))) \<and>
         (\<forall>i. find (\<lambda>p. id' p = i) (papers (fst (fetchAllFeeds e st))) =
              find (\<lambda>p. id' p = i) (concat results))"
proof -
  have p: "papers (fst (fetchAllFeeds e st)) = dedup_loop (concat results) {} []"
    by (rule fetchAllFeeds_settled(1) [OF assms])
  have "distinct (map id' (dedup_loop (concat results) {} []))"
    by (rule dedup_loop_distinct) simp_all
  moreover have "find (\<lambda>p. id' p = i) (dedup_loop (concat results) {} []) =
                 find (\<lambda>p. id' p = i) (concat results)" for i
    using dedup_loop_first [of "{}" "[]" i "concat results"] by simp
  ultimately show ?thesis using p by simp
qed

theorem merged_collection_deduplicated_witness:
  "await_results duplicate_env two_category_state = Inr [[first_version], [second_version]] \<and>
   distinct (map id' (papers (fst (fetchAllFeeds duplicate_env two_category_state)))) \<and>
   find (\<lambda>p. id' p = js ''2401.00001v1'') (papers (fst (fetchAllFeeds duplicate_env two_category_state))) =
     Some first_version"
proof -
  have h: "await_results duplicate_env two_category_state = Inr [[first_version], [second_version]]"
    by code_simp
  from merged_collection_deduplicated [OF h] h show ?thesis
    by (simp add: first_version_def)
qed

text \<open>
  Claim C4. When \<^verbatim>\<open>await Promise.all(...)\<close> throws, the cycle ends with the generic failure
  message in \<^verbatim>\<open>state.error\<close>, and the state is the one from before the cycle but for
  \<^verbatim>\<open>isLoading\<close> and \<^verbatim>\<open>error\<close>: \<^verbatim>\<open>state.papers\<close> is unchanged.
\<close>

theorem aggregation_failure_keeps_papers:
  assumes "await_results e st = Inl x"
  shows "papers (fst (fetchAllFeeds e st)) = papers st \<and>
         error (fst (fetchAllFeeds e st)) = Some failure_message \<and>
         fst (fetchAllFeeds e st) = st\<lparr>isLoading := False, error := Some failure_message\<rparr>"
  using fetchAllFeeds_thrown [OF assms] by simp

theorem aggregation_failure_keeps_papers_witness:
  "await_results example_env surrogate_state = Inl URIError \<and>
   papers (fst (fetchAllFeeds example_env surrogate_state)) = [example_paper] \<and>
   error (fst (fetchAllFeeds example_env surrogate_state)) = Some failure_message"
proof -
  have h: "await_results example_env surrogate_state = Inl URIError"
    by code_simp
  from aggregation_failure_keeps_papers [OF h] h show ?thesis
    by (simp add: surrogate_state_def example_state_def)
qed

lemma Promise_all_empty_results:
  "\<forall>c \<in> set calls. fst c = Inr [] \<Longrightarrow>
   Promise_all (map fst calls) = Inr (replicate (length calls) [])"
  by (induction calls) auto

lemma fetchFeed_all_rejected:
  assumes "feed \<in> set CONFIG_feeds" and "\<And>url. fetch e url = Rejected x"
  shows "fst (fetchFeed e feed) = Inr []"
proof -
  from assms(1) obtain enc where enc: "encodeURIComponent (feed_url feed) = Inr enc"
    using CONFIG_feeds_encode by blast
  have sf: "soft_failure e parse url" for parse url
    by (simp add: soft_failure_def assms(2))
  have dw: "dropWhile (soft_failure e parse) urls = []" for parse urls
    using sf by simp
  show ?thesis
    unfolding fetchFeed_def proxy_loop_chain [OF enc] by (simp add: dw)
qed

lemma snapshot_all_rejected:
  assumes "\<And>url. fetch e url = Rejected x" and "dateRange st = js ''today''"
  shows "await_results e st = Inr (replicate 7 [])"
proof -
  have all: "\<forall>c \<in> set (fetch_calls e st). fst c = Inr []"
    using fetchFeed_all_rejected [OF _ assms(1)] assms(2)
    by (auto simp: fetch_calls_def)
  have len: "length (fetch_calls e st) = 7"
    using assms(2) by (simp add: fetch_calls_def CONFIG_feeds_def)
  show ?thesis
    unfolding await_results_def using Promise_all_empty_results [OF all] len by simp
qed

text \<open>
  In a cycle that waits for the network, the mode is read a second time after the wait
  (app.js, line 391). A snapshot cycle that ends empty on a Saturday, during which
  \<^verbatim>\<open>Past 7 Days\<close> was selected, reports the message of the date range and not the weekend
  message.
\<close>

theorem empty_result_message_counterexample:
  "dateRange example_state = js ''today'' \<and> getDay switching_env = 6 \<and>
   await_results switching_env example_state = Inr (replicate 7 []) \<and>
   papers (fst (fetchAllFeeds switching_env example_state)) = [] \<and>
   error (fst (fetchAllFeeds switching_env example_state)) = Some range_message \<and>
   range_message \<noteq> weekend_message"
proof -
  have m: "dateRange example_state = js ''today''"
    by (simp add: example_state_def)
  have rej: "fetch switching_env url = Rejected TypeError" for url
    by (simp add: switching_env_def example_env_def)
  have h: "await_results switching_env example_state = Inr (replicate 7 [])"
    by (rule snapshot_all_rejected [OF rej m])
  have calls: "fetch_calls switching_env (example_state\<lparr>isLoading := True, error := None\<rparr>) \<noteq> []"
    using m by (simp add: fetch_calls_def CONFIG_feeds_def)
  have r: "dateRange (resumed switching_env (example_state\<lparr>isLoading := True, error := None\<rparr>)) = js ''week''"
    using calls by (simp add: resumed_def switching_env_def)
  have w: "js ''week'' \<noteq> js ''today''"
    by (simp add: js_def)
  have d: "range_message \<noteq> weekend_message"
    by (simp add: range_message_def weekend_message_def js_def)
  from fetchAllFeeds_settled(1,4) [OF h] r w m d h show ?thesis
    by (simp add: switching_env_def example_env_def numeral_eq_Suc)
qed

text \<open>
  Claim C7, amended. When the calls of a cycle have all returned and the merged collection
  is empty, the message in \<^verbatim>\<open>state.error\<close> is determined by \<^verbatim>\<open>state.dateRange\<close> as it stands
  when the cycle goes on after the calls, and by the day of the week: for \<^verbatim>\<open>today\<close> the
  weekend message on a Saturday (6) or a Sunday (0) and the unavailability message on the
  other days, for any other value the message that proposes other categories. When no
  handler has changed \<^verbatim>\<open>state.dateRange\<close> during the cycle, this is the mode of the cycle.
\<close>

theorem empty_result_message:
  assumes "await_results e st = Inr results"
    and "papers (fst (fetchAllFeeds e st)) = []"
  shows "error (fst (fetchAllFeeds e st)) =
           Some (if dateRange (fst (fetchAllFeeds e st)) = js ''today''
                 then if getDay e = 6 \<or> getDay e = 0 then weekend_message else unavailable_message
                 else range_message) \<and>
         dateRange (fst (fetchAllFeeds e st)) =
           dateRange (resumed e (st\<lparr>isLoading := True, error := None\<rparr>)) \<and>
         (dateRange (resumed e (st\<lparr>isLoading := True, error := None\<rparr>)) = dateRange st \<longrightarrow>
          error (fst (fetchAllFeeds e st)) =
            Some (if dateRange st = js ''today''
                  then if getDay e = 6 \<or> getDay e = 0 then weekend_message else unavailable_message
                  else range_message))"
  using fetchAllFeeds_settled(1,3,4) [OF assms(1)] assms(2) by auto

theorem empty_result_message_witness:
  "await_results example_env example_state = Inr (replicate 7 []) \<and>
   papers (fst (fetchAllFeeds example_env example_state)) = [] \<and>
   dateRange (resumed example_env (example_state\<lparr>isLoading := True, error := None\<rparr>)) =
     dateRange example_state \<and>
   dateRange example_state = js ''today'' \<and> getDay example_env = 6 \<and>
   error (fst (fetchAllFeeds example_env example_state)) = Some weekend_message"
proof -
  have m: "dateRange example_state = js ''today''"
    by (simp add: example_state_def)
  have rej: "fetch example_env url = Rejected TypeError" for url
    by (simp add: example_env_def)
  have h: "await_results example_env example_state = Inr (replicate 7 [])"
    by (rule snapshot_all_rejected [OF rej m])
  have p: "papers (fst (fetchAllFeeds example_env example_state)) = []"
    using fetchAllFeeds_settled(1) [OF h] by (simp add: numeral_eq_Suc)
  have r: "dateRange (resumed example_env (example_state\<lparr>isLoading := True, error := None\<rparr>)) =
             dateRange example_state"
    by (simp add: resumed_def example_env_def)
  have g: "getDay example_env = 6"
    by (simp add: example_env_def)
  from empty_result_message [OF h p] h p r m g show ?thesis
    by simp
qed

text \<open>
  Claim C10. In ranged-query mode with no active category, \<^verbatim>\<open>fetchAllFeeds\<close> requests no
  URL, leaves \<^verbatim>\<open>state.papers\<close> empty and reports the message of the empty date range.
\<close>

theorem ranged_mode_without_categories:
  assumes "dateRange st \<noteq> js ''today''" and "activeCategories st = []"
  shows "snd (fetchAllFeeds e st) = [] \<and>
         papers (fst (fetchAllFeeds e st)) = [] \<and>
         error (fst (fetchAllFeeds e st)) = Some range_message"
proof -
  from assms have calls: "fetch_calls e st = []"
    by (simp add: fetch_calls_def)
  then have "await_results e st = Inr []"
    by (simp add: await_results_def)
  from fetchAllFeeds_settled(1,2,4) [OF this] calls assms(1) show ?thesis by simp
qed

theorem ranged_mode_without_categories_witness:
  "dateRange no_category_state \<noteq> js ''today'' \<and> activeCategories no_category_state = [] \<and>
   snd (fetchAllFeeds example_env no_category_state) = [] \<and>
   papers (fst (fetchAllFeeds example_env no_category_state)) = [] \<and>
   error (fst (fetchAllFeeds example_env no_category_state)) = Some range_message"
proof -
  have m: "dateRange no_category_state \<noteq> js ''today''"
    by (simp add: no_category_state_def example_state_def js_def)
  have c: "activeCategories no_category_state = []"
    by (simp add: no_category_state_def example_state_def)
  from ranged_mode_without_categories [OF m c, of example_env] m c show ?thesis by simp
qed

section \<open>The bookmark store\<close>

text \<open>
  Claim C8. \<^verbatim>\<open>loadBookmarks\<close> never throws, whatever the slot holds and whatever the
  storage and the JSON parser do; when the slot is absent, and when its content does not
  parse, the bookmarks are the empty list afterwards.
\<close>

theorem loadBookmarks_never_raises:
  "(\<exists>st'. loadBookmarks e st = Inr st') \<and>
   (localStorage st = None \<longrightarrow> loadBookmarks e st = Inr (st\<lparr>bookmarks := []\<rparr>)) \<and>
   (\<forall>stored x. localStorage st = Some stored \<and> JSON_parse e stored = Inl x \<longrightarrow>
        loadBookmarks e st = Inr (st\<lparr>bookmarks := []\<rparr>))"
  by (auto simp: loadBookmarks_def loadBookmarks_try_def or_else_def truthy_def Let_def
      split: sum.splits option.splits)

theorem loadBookmarks_never_raises_witness:
  "localStorage bookmarked_state = None \<and>
   loadBookmarks example_env bookmarked_state = Inr (bookmarked_state\<lparr>bookmarks := []\<rparr>) \<and>
   localStorage corrupted_state = Some (js ''[{'') \<and>
   JSON_parse example_env (js ''[{'') = Inl SyntaxError \<and>
   loadBookmarks example_env corrupted_state = Inr (corrupted_state\<lparr>bookmarks := []\<rparr>)"
proof -
  have a: "localStorage bookmarked_state = None"
    by (simp add: bookmarked_state_def example_state_def)
  have c: "localStorage corrupted_state = Some (js ''[{'')"
    by (simp add: corrupted_state_def example_state_def)
  have s: "JSON_parse example_env (js ''[{'') = Inl SyntaxError"
    by (simp add: example_env_def)
  from loadBookmarks_never_raises [of example_env bookmarked_state]
    loadBookmarks_never_raises [of example_env corrupted_state] a c s
  show ?thesis by blast
qed

lemma findIndex_first:
  "P b \<Longrightarrow> \<forall>y \<in> set ys. \<not> P y \<Longrightarrow> findIndex P (ys @ b # zs) = int (length ys)"
  by (induction ys) auto

lemma saveBookmarks_bookmarks [simp]: "bookmarks (saveBookmarks e st) = bookmarks st"
  by (simp add: saveBookmarks_def split: option.splits)

text \<open>
  The only operation that adds a bookmark is \<^verbatim>\<open>toggleBookmark\<close>. Called for a paper that
  is bookmarked, it does not leave the bookmarks as they are: in \<open>bookmarked_state\<close> the
  one bookmark is gone afterwards.
\<close>

theorem toggleBookmark_on_bookmarked_counterexample:
  "isBookmarked bookmarked_state (id' example_paper) \<and>
   bookmarks bookmarked_state = [example_bookmark] \<and>
   bookmarks (toggleBookmark example_env example_paper bookmarked_state) = []"
  by (simp add: isBookmarked_def toggleBookmark_def bookmarked_state_def example_state_def
      example_paper_def example_bookmark_def)

text \<open>
  Claim C9, amended. \<^verbatim>\<open>toggleBookmark\<close> for a paper whose \<^verbatim>\<open>id\<close> is bookmarked removes the
  first bookmark with that \<^verbatim>\<open>id\<close> and leaves the other bookmarks as they are, in their
  order.
\<close>

theorem toggleBookmark_removes_bookmarked:
  assumes "isBookmarked st (id' paper)"
  shows "\<exists>before b after.
           bookmarks st = before @ b # after \<and> b_id b = id' paper \<and>
           (\<forall>x \<in> set before. b_id x \<noteq> id' paper) \<and>
           bookmarks (toggleBookmark e paper st) = before @ after"
proof -
  from assms have "\<exists>b \<in> set (bookmarks st). b_id b = id' paper"
    by (simp add: isBookmarked_def list_ex_iff)
  then obtain before b after where split:
    "bookmarks st = before @ b # after" "b_id b = id' paper" "\<forall>x \<in> set before. b_id x \<noteq> id' paper"
    using split_list_first_prop [of "bookmarks st" "\<lambda>b. b_id b = id' paper"] by blast
  have ix: "findIndex (\<lambda>b. b_id b = id' paper) (before @ b # after) = int (length before)"
    by (rule findIndex_first) (use split in auto)
  have "bookmarks (toggleBookmark e paper st) = before @ after"
    by (simp add: toggleBookmark_def ix Let_def split(1))
  with split show ?thesis by blast
qed

theorem toggleBookmark_removes_bookmarked_witness:
  "isBookmarked bookmarked_state (id' example_paper) \<and>
   (\<exists>before b after.
      bookmarks bookmarked_state = before @ b # after \<and> b_id b = id' example_paper \<and>
      (\<forall>x \<in> set before. b_id x \<noteq> id' example_paper) \<and>
      bookmarks (toggleBookmark example_env example_paper bookmarked_state) = before @ after)"
proof -
  have h: "isBookmarked bookmarked_state (id' example_paper)"
    by (simp add: isBookmarked_def bookmarked_state_def example_state_def
        example_paper_def example_bookmark_def)
  from toggleBookmark_removes_bookmarked [OF h, of example_env] h show ?thesis by blast
qed

section \<open>The format parsers\<close>

text \<open>
  What the guards of the two parsers give: a record of \<^verbatim>\<open>parseFeed\<close> has a non-empty link,
  and a record of \<^verbatim>\<open>parseArxivAPIResponse\<close> has a non-empty title and a non-empty link.
\<close>

lemma foldl_push_invariant:
  assumes "\<forall>p \<in> set acc. Q p"
    and step: "\<And>acc x. \<forall>p \<in> set acc. Q p \<Longrightarrow> \<forall>p \<in> set (f acc x). Q p"
  shows "\<forall>p \<in> set (foldl f acc xs). Q p"
  using assms(1)
proof (induction xs arbitrary: acc)
  case Nil
  then show ?case by simp
next
  case (Cons x xs)
  from step [OF Cons.prems] have "\<forall>p \<in> set (f acc x). Q p" .
  from Cons.IH [OF this] show ?case by simp
qed

lemma replace_first_nonempty: "s \<noteq> [] \<Longrightarrow> rep \<noteq> [] \<Longrightarrow> replace_first pat rep s \<noteq> []"
  by (cases s) auto

lemma parseFeed_link_nonempty:
  "p \<in> set (parseFeed e xmlText categoryId) \<Longrightarrow> link p \<noteq> []"
proof -
  have "\<forall>p \<in> set (parseFeed e xmlText categoryId). link p \<noteq> []"
    unfolding parseFeed_def
    by (rule foldl_push_invariant) (auto simp: parseFeed_item_def Let_def truthy_def)
  then show "p \<in> set (parseFeed e xmlText categoryId) \<Longrightarrow> link p \<noteq> []" by blast
qed

lemma entry_id_nonempty: "truthy (or_else (match_abs s) (split_pop s)) \<Longrightarrow> s \<noteq> []"
  by (cases s) (auto simp: truthy_def or_else_def split_pop_def)

lemma https_nonempty: "js ''https://'' \<noteq> []"
  by (simp add: js_def)

lemma parseArxivAPIResponse_entry_push:
  assumes "\<forall>p\<in>set acc. title p \<noteq> [] \<and> link p \<noteq> []"
  shows "\<forall>p\<in>set (parseArxivAPIResponse_entry e categoryId acc x). title p \<noteq> [] \<and> link p \<noteq> []"
proof (cases "truthy (cleanText (or_else (entry_title (snd x)) [])) \<and>
              truthy (or_else (match_abs (or_else (entry_id (snd x)) [])) (split_pop (or_else (entry_id (snd x)) [])))")
  case True
  then have "or_else (entry_id (snd x)) [] \<noteq> []"
    using entry_id_nonempty by blast
  then have "replace_first (js ''http://'') (js ''https://'') (or_else (entry_id (snd x)) []) \<noteq> []"
    by (rule replace_first_nonempty) (rule https_nonempty)
  with True assms show ?thesis
    by (simp add: parseArxivAPIResponse_entry_def Let_def truthy_def)
next
  case False
  then have "parseArxivAPIResponse_entry e categoryId acc x = acc"
    by (auto simp: parseArxivAPIResponse_entry_def Let_def)
  with assms show ?thesis by simp
qed

lemma parseArxivAPIResponse_nonempty:
  "p \<in> set (parseArxivAPIResponse e xmlText categoryId) \<Longrightarrow> title p \<noteq> [] \<and> link p \<noteq> []"
proof -
  have "\<forall>p \<in> set (parseArxivAPIResponse e xmlText categoryId). title p \<noteq> [] \<and> link p \<noteq> []"
    unfolding parseArxivAPIResponse_def
    by (rule foldl_push_invariant) (simp_all add: parseArxivAPIResponse_entry_push)
  then show "p \<in> set (parseArxivAPIResponse e xmlText categoryId) \<Longrightarrow> title p \<noteq> [] \<and> link p \<noteq> []"
    by blast
qed

text \<open>
  Claim C2. No record that a parser returns has an empty title or an empty link. The
  guard of \<^verbatim>\<open>parseFeed\<close> tests the title before the category tag is removed from it: for
  the item of \<open>tag_only_document\<close>, whose title is \<^verbatim>\<open>(cs.LG)\<close>, the record is pushed, and
  its title is the empty string.
\<close>

theorem parseFeed_emits_empty_title:
  "map title (parseFeed tag_only_env tag_only_document (js ''cs.LG'')) = [[]] \<and>
   map link (parseFeed tag_only_env tag_only_document (js ''cs.LG'')) =
     [js ''https://arxiv.org/abs/2401.00001'']"
  by code_simp

text \<open>
  The scheme upgrade of \<^verbatim>\<open>parseArxivAPIResponse\<close>: an identifier that starts with
  \<^verbatim>\<open>http://\<close> gives a link that starts with \<^verbatim>\<open>https://\<close>.
\<close>

lemma replace_first_http:
  assumes "take 7 s = js ''http://''"
  shows "replace_first (js ''http://'') (js ''https://'') s = js ''https://'' @ drop 7 s"
proof (cases s)
  case Nil
  with assms show ?thesis by (simp add: js_def)
next
  case (Cons c cs)
  have len: "length (js ''http://'') = 7"
    by (simp add: js_def)
  have "replace_first (js ''http://'') (js ''https://'') (c # cs) =
          (if take 7 (c # cs) = js ''http://'' then js ''https://'' @ drop 7 (c # cs)
           else c # replace_first (js ''http://'') (js ''https://'') cs)"
    unfolding replace_first.simps(2) len ..
  also have "\<dots> = js ''https://'' @ drop 7 (c # cs)"
    using assms unfolding Cons by (simp only: refl if_True)
  finally show ?thesis unfolding Cons .
qed

text \<open>
  Claim C5. Every record that a parser returns has an \<^verbatim>\<open>https\<close> link.
  \<^verbatim>\<open>parseFeed\<close> pushes the link of the item as it is: for the item of \<open>http_document\<close> the
  record has the \<^verbatim>\<open>http\<close> link of the item.
\<close>

theorem parseFeed_keeps_http_link:
  "map link (parseFeed http_env http_document (js ''cs.LG'')) =
     [js ''http://arxiv.org/abs/2401.00001'']"
  by code_simp

text \<open>
  Claim C6. The link of a record of \<^verbatim>\<open>parseArxivAPIResponse\<close> is the \<^verbatim>\<open>pdf\<close> link of the
  entry when it has one, else the alternate link, else the identifier. The local \<^verbatim>\<open>link\<close>
  is computed so and not used: for the entry of \<open>pdf_document\<close> it is the \<^verbatim>\<open>pdf\<close> link,
  and the record has the identifier with its scheme upgraded.
\<close>

theorem parseArxivAPIResponse_ignores_pdf_link:
  "entry_link pdf_entry (js ''http://arxiv.org/abs/2401.00001v1'') =
     js ''https://arxiv.org/pdf/2401.00001v1'' \<and>
   map link (parseArxivAPIResponse pdf_env pdf_document (js ''cs.LG'')) =
     [js ''https://arxiv.org/abs/2401.00001v1'']"
  by code_simp

end
